theory Spec2Isabelle
  imports Complex_Main "HOL-Library.Sublist" "HOL-Library.AList" "HOL-Library.Monad_Syntax"
begin

section \<open>Text primitives of the host language\<close>

text \<open>
  The analyser of \<^verbatim>\<open>backend/services/hr_analyzer.py\<close> works on Python strings. A text is
  modelled as a list of 8-bit characters, each read as one code point in the range 0..255
  (not as a byte of an encoding), so \<open>length\<close> is Python's \<open>len\<close> for such a text. The
  character classes below are those of Python on that range. Integers are unbounded
  (\<open>int\<close>). True division \<open>/\<close> is modelled on the rationals; an operation that raises in
  Python (division by zero, \<open>max\<close> of an empty sequence, a missing dictionary key) returns
  \<open>None\<close>, and every function that may reach one returns an \<open>option\<close>.
\<close>

definition code :: "char \<Rightarrow> nat" where
  "code c = of_char c"

text \<open>\<^verbatim>\<open>str.lower\<close>: A..Z and the capital letters 192..222 (without the sign 215) move up by 32.\<close>

definition lower_char :: "char \<Rightarrow> char" where
  "lower_char c =
     (if (65 \<le> code c \<and> code c \<le> 90) \<or> (192 \<le> code c \<and> code c \<le> 222 \<and> code c \<noteq> 215)
      then char_of (code c + 32) else c)"

definition lower :: "string \<Rightarrow> string" where
  "lower s = map lower_char s"

text \<open>\<^verbatim>\<open>str.upper\<close>, used on the four component names only (lower-case ASCII letters).\<close>

definition upper_char :: "char \<Rightarrow> char" where
  "upper_char c =
     (if (97 \<le> code c \<and> code c \<le> 122) then char_of (code c - 32) else c)"

definition upper :: "string \<Rightarrow> string" where
  "upper s = map upper_char s"

text \<open>White space as \<^verbatim>\<open>str.split\<close>, \<^verbatim>\<open>str.strip\<close> and the pattern class \<^verbatim>\<open>\s\<close> see it.\<close>

definition isspace :: "char \<Rightarrow> bool" where
  "isspace c = ((9 \<le> code c \<and> code c \<le> 13) \<or> (28 \<le> code c \<and> code c \<le> 32)
                 \<or> code c = 133 \<or> code c = 160)"

text \<open>\<^verbatim>\<open>str.isdigit\<close> accepts the superscript digits 178, 179 and 185 as well; the pattern
  class \<^verbatim>\<open>\d\<close> accepts decimal digits only.\<close>

definition isdigit :: "char \<Rightarrow> bool" where
  "isdigit c = ((48 \<le> code c \<and> code c \<le> 57) \<or> code c = 178 \<or> code c = 179 \<or> code c = 185)"

definition re_digit :: "char \<Rightarrow> bool" where
  "re_digit c = (48 \<le> code c \<and> code c \<le> 57)"

text \<open>\<^verbatim>\<open>string.punctuation\<close>: the 32 ASCII signs 33..47, 58..64, 91..96 and 123..126.\<close>

definition punctuation :: "char \<Rightarrow> bool" where
  "punctuation c = ((33 \<le> code c \<and> code c \<le> 47) \<or> (58 \<le> code c \<and> code c \<le> 64)
                     \<or> (91 \<le> code c \<and> code c \<le> 96) \<or> (123 \<le> code c \<and> code c \<le> 126))"

definition len :: "'a list \<Rightarrow> int" where
  "len xs = int (length xs)"

text \<open>\<^verbatim>\<open>sub in text\<close>.\<close>

fun py_in :: "string \<Rightarrow> string \<Rightarrow> bool" where
  "py_in sub [] = (sub = [])"
| "py_in sub (c # cs) = (prefix sub (c # cs) \<or> py_in sub cs)"

text \<open>\<^verbatim>\<open>text.count(sub)\<close> for a non-empty \<open>sub\<close>: occurrences from the left, not overlapping.
  The first argument counts the characters still covered by the last occurrence.\<close>

fun count_from :: "nat \<Rightarrow> string \<Rightarrow> string \<Rightarrow> int" where
  "count_from skip sub [] = 0"
| "count_from skip sub (c # cs) =
     (if skip = 0 \<and> prefix sub (c # cs) then 1 + count_from (length sub - 1) sub cs
      else count_from (skip - 1) sub cs)"

definition py_count :: "string \<Rightarrow> string \<Rightarrow> int" where
  "py_count text sub = count_from 0 sub text"

text \<open>\<^verbatim>\<open>text.split()\<close>: the maximal runs of characters that are not white space.\<close>

fun split_from :: "string \<Rightarrow> string \<Rightarrow> string list" where
  "split_from cur [] = (if cur = [] then [] else [cur])"
| "split_from cur (c # cs) =
     (if isspace c then (if cur = [] then split_from [] cs else cur # split_from [] cs)
      else split_from (cur @ [c]) cs)"

definition split :: "string \<Rightarrow> string list" where
  "split text = split_from [] text"

definition strip :: "string \<Rightarrow> string" where
  "strip s = rev (dropWhile isspace (rev (dropWhile isspace s)))"

text \<open>\<^verbatim>\<open>re.split(r'[.!?]', text)\<close>: cut at every full stop, exclamation mark and question
  mark; empty pieces are kept.\<close>

fun re_split_from :: "string \<Rightarrow> string \<Rightarrow> string list" where
  "re_split_from cur [] = [cur]"
| "re_split_from cur (c # cs) =
     (if c = CHR ''.'' \<or> c = CHR ''!'' \<or> c = CHR ''?'' then cur # re_split_from [] cs
      else re_split_from (cur @ [c]) cs)"

definition re_split_terminal :: "string \<Rightarrow> string list" where
  "re_split_terminal text = re_split_from [] text"

text \<open>\<^verbatim>\<open>sep.join(parts)\<close>.\<close>

fun join :: "string \<Rightarrow> string list \<Rightarrow> string" where
  "join sep [] = []"
| "join sep [p] = p"
| "join sep (p # q # ps) = p @ sep @ join sep (q # ps)"

text \<open>\<^verbatim>\<open>sum(1 for k in keywords if k in text)\<close>: every entry of the list counts once.\<close>

definition count_present :: "string list \<Rightarrow> string \<Rightarrow> int" where
  "count_present keywords text = len (filter (\<lambda>k. py_in k text) keywords)"

text \<open>\<^verbatim>\<open>any(k in text for k in keywords)\<close>.\<close>

definition any_present :: "string list \<Rightarrow> string \<Rightarrow> bool" where
  "any_present keywords text = list_ex (\<lambda>k. py_in k text) keywords"

text \<open>\<^verbatim>\<open>a / b\<close> raises ZeroDivisionError for \<open>b = 0\<close>.\<close>

definition truediv :: "int \<Rightarrow> int \<Rightarrow> rat option" where
  "truediv a b = (if b = 0 then None else Some (of_int a / of_int b))"

text \<open>\<^verbatim>\<open>max(xs)\<close> raises ValueError for an empty sequence.\<close>

fun py_max :: "int list \<Rightarrow> int option" where
  "py_max [] = None"
| "py_max (x # xs) = Some (fold max xs x)"

fun py_min :: "int list \<Rightarrow> int option" where
  "py_min [] = None"
| "py_min (x # xs) = Some (fold min xs x)"

text \<open>\<^verbatim>\<open>int(x)\<close> on a fraction truncates toward zero.\<close>

definition py_int :: "rat \<Rightarrow> int" where
  "py_int x = (if 0 \<le> x then \<lfloor>x\<rfloor> else \<lceil>x\<rceil>)"

section \<open>Lexicons\<close>

definition CONFIDENCE_KEYWORDS :: "string list" where
  "CONFIDENCE_KEYWORDS =
    [''led'', ''lead'', ''managed'', ''directed'', ''spearheaded'', ''initiated'',
     ''achieved'', ''accomplished'', ''delivered'', ''exceeded'', ''surpassed'',
     ''improved'', ''increased'', ''reduced'', ''optimized'', ''transformed'',
     ''responsible'', ''ownership'', ''accountable'', ''drove'', ''championed'',
     ''successfully'', ''effectively'', ''efficiently'', ''proactively'',
     ''decided'', ''determined'', ''resolved'', ''solved'', ''overcame'']"

definition LEADERSHIP_KEYWORDS :: "string list" where
  "LEADERSHIP_KEYWORDS =
    [''team'', ''collaborated'', ''coordinated'', ''mentored'', ''coached'',
     ''delegated'', ''motivated'', ''inspired'', ''influenced'', ''persuaded'',
     ''negotiated'', ''facilitated'', ''organized'', ''supervised'', ''trained'',
     ''led'', ''leadership'', ''cross-functional'', ''stakeholder'', ''consensus'']"

text \<open>The dictionaries keep the order in which their keys were written.\<close>

definition STAR_INDICATORS :: "(string \<times> string list) list" where
  "STAR_INDICATORS =
    [(''situation'',
       [''situation'', ''context'', ''background'', ''scenario'', ''challenge'',
        ''problem'', ''issue'', ''when'', ''while working'', ''at my previous'',
        ''in my role'', ''during'', ''faced with'']),
     (''task'',
       [''task'', ''responsibility'', ''goal'', ''objective'', ''assigned'',
        ''needed to'', ''had to'', ''required to'', ''expected to'', ''my role was'',
        ''i was responsible'', ''charged with'']),
     (''action'',
       [''action'', ''i did'', ''i took'', ''implemented'', ''developed'', ''created'',
        ''designed'', ''built'', ''established'', ''initiated'', ''executed'',
        ''i decided'', ''i started'', ''i began'', ''my approach'', ''steps i took'']),
     (''result'',
       [''result'', ''outcome'', ''impact'', ''achieved'', ''accomplished'',
        ''led to'', ''resulted in'', ''consequently'', ''as a result'', ''ultimately'',
        ''success'', ''improved'', ''increased'', ''reduced'', ''saved'', ''delivered''])]"

definition QUESTION_RELEVANCE_MAP :: "(string \<times> string list) list" where
  "QUESTION_RELEVANCE_MAP =
    [(''challenge'', [''challenge'', ''difficult'', ''hard'', ''problem'', ''obstacle'',
        ''struggle'', ''issue'', ''tough'', ''overcome'']),
     (''difficult team member'', [''team'', ''colleague'', ''coworker'', ''conflict'',
        ''disagreement'', ''difficult person'', ''communication'']),
     (''leadership'', [''lead'', ''led'', ''team'', ''managed'', ''directed'', ''initiative'',
        ''guided'', ''motivated'', ''inspired'']),
     (''failed'', [''fail'', ''mistake'', ''error'', ''wrong'', ''learned'', ''lesson'',
        ''setback'', ''didn't work'']),
     (''deadline'', [''deadline'', ''time'', ''urgent'', ''quick'', ''fast'', ''pressure'',
        ''rushed'', ''days'', ''hours'', ''weeks'']),
     (''above and beyond'', [''extra'', ''beyond'', ''more than'', ''additional'',
        ''volunteered'', ''initiative'', ''own time'']),
     (''persuade'', [''persuade'', ''convince'', ''argument'', ''presented'', ''explained'',
        ''showed'', ''demonstrated'', ''negotiated'']),
     (''feedback'', [''feedback'', ''criticism'', ''critique'', ''review'', ''told me'',
        ''suggested'', ''improved'', ''changed''])]"

definition VAGUE_PHRASES :: "string list" where
  "VAGUE_PHRASES =
    [''i worked hard'', ''i did my best'', ''i tried'', ''we worked together'',
     ''it was difficult'', ''i managed it'', ''things worked out'', ''it went well'',
     ''i handled it'', ''i dealt with it'', ''we figured it out'', ''i made it happen'',
     ''i was successful'', ''good results'', ''positive outcome'', ''everything was fine'']"

definition HEDGING_WORDS :: "string list" where
  "HEDGING_WORDS =
    [''maybe'', ''perhaps'', ''i think'', ''i guess'', ''sort of'', ''kind of'',
     ''probably'', ''might have'', ''could have'', ''possibly'', ''somewhat'',
     ''i believe'', ''i feel like'', ''in a way'', ''more or less'']"

definition OFF_TOPIC_PHRASES :: "string list" where
  "OFF_TOPIC_PHRASES =
    [''what was the question'', ''can you repeat'', ''i forgot'',
     ''anyway'', ''by the way'', ''unrelated but'', ''off topic'']"

subsection \<open>The placeholder patterns\<close>

text \<open>
  \<^verbatim>\<open>RED_FLAG_PATTERNS\<close> holds fourteen regular expressions, searched in the lower-cased
  text with \<^verbatim>\<open>re.search\<close>. Each shape that occurs is written as its own search:
  \<^item> \<open>Lit s\<close>: the literal \<open>s\<close> somewhere in the text;
  \<^item> \<open>Spaced ps\<close>: the literals \<open>ps\<close> in a row with \<^verbatim>\<open>\s*\<close> between neighbours (no literal
    starts with white space, so skipping all of it is what the greedy star ends up with);
  \<^item> \<open>Repeated\<close>: \<^verbatim>\<open>(.)\1{4,}\<close>, a character other than the line feed five times in a row;
  \<^item> \<open>Optional a c b\<close>: \<open>a\<close>, then the character \<open>c\<close> or nothing, then \<open>b\<close>;
  \<^item> \<open>Whole ws\<close>: \<^verbatim>\<open>^(w1|w2|...)\.?$\<close>, the text is one of the words, then a full stop or
    not, then a final line feed or not (\<^verbatim>\<open>$\<close> also matches before a line feed that ends
    the text).
  The text is lower-cased before the search and the patterns are written in lower case, so
  the flag \<^verbatim>\<open>re.IGNORECASE\<close> changes nothing on the modelled characters.
\<close>

datatype pattern =
  Lit string | Spaced "string list" | Repeated | Whole "string list" | Optional string char string

fun spaced_at :: "string list \<Rightarrow> string \<Rightarrow> bool" where
  "spaced_at [] text = True"
| "spaced_at (p # ps) text =
     (prefix p text \<and> spaced_at ps (dropWhile isspace (drop (length p) text)))"

definition repeated_at :: "string \<Rightarrow> bool" where
  "repeated_at text =
     (case text of [] \<Rightarrow> False
      | c # rest \<Rightarrow> c \<noteq> CHR 0x0A \<and> prefix (replicate 4 c) rest)"

fun search_at :: "(string \<Rightarrow> bool) \<Rightarrow> string \<Rightarrow> bool" where
  "search_at m [] = m []"
| "search_at m (c # cs) = (m (c # cs) \<or> search_at m cs)"

fun re_search :: "pattern \<Rightarrow> string \<Rightarrow> bool" where
  "re_search (Lit s) text = py_in s text"
| "re_search (Spaced ps) text = search_at (spaced_at ps) text"
| "re_search Repeated text = search_at repeated_at text"
| "re_search (Optional a c b) text = (py_in (a @ b) text \<or> py_in (a @ [c] @ b) text)"
| "re_search (Whole ws) text =
     list_ex (\<lambda>w. text = w \<or> text = w @ ''.'' \<or> text = w @ [CHR 0x0A]
                   \<or> text = w @ ''.'' @ [CHR 0x0A]) ws"

definition RED_FLAG_PATTERNS :: "pattern list" where
  "RED_FLAG_PATTERNS =
    [Lit ''asdf'', Lit ''qwerty'', Lit ''zxcv'', Lit ''jkl'', Spaced ['';'', '';'', '';''],
     Repeated,
     Spaced [''test'', ''test''], Spaced [''hello'', ''hello''], Spaced [''blah'', ''blah''],
     Whole [''yes'', ''no'', ''ok'', ''okay'', ''sure'', ''fine'', ''good'', ''bad'', ''idk'',
            ''dunno''],
     Lit ''lorem ipsum'',
     Optional ''i don'' (CHR 0x27) ''t know'', Lit ''no idea'', Lit ''not sure'']"

section \<open>Gibberish detector\<close>

text \<open>
  The quotients of this file are compared on the rationals. The source compares their
  floating-point values; both comparisons agree as long as a text has fewer than
  \<open>10 ^ 15\<close> characters (the nearest quotients to a threshold differ from it by at least
  one over ten times the divisor).
\<close>

record gibberish_verdict =
  is_gibberish :: bool
  severity :: int
  issues :: "string list"

text \<open>\<^verbatim>\<open>issues.append(issue); severity = max(severity, level)\<close> on the pair \<open>st\<close> of
  the two variables \<^verbatim>\<open>issues\<close> and \<^verbatim>\<open>severity\<close>.\<close>

definition report :: "string \<Rightarrow> int \<Rightarrow> string list \<times> int \<Rightarrow> string list \<times> int" where
  "report issue level st = (fst st @ [issue], max (snd st) level)"

text \<open>\<^verbatim>\<open>word_counts[word] = word_counts.get(word, 0) + 1\<close> for the words longer than two.\<close>

definition count_word :: "(string \<times> int) list \<Rightarrow> string \<Rightarrow> (string \<times> int) list" where
  "count_word word_counts word =
     (if len word > 2
      then AList.update word ((case map_of word_counts word of None \<Rightarrow> 0 | Some n \<Rightarrow> n) + 1)
             word_counts
      else word_counts)"

definition detect_gibberish :: "string \<Rightarrow> gibberish_verdict option" where
  "detect_gibberish text = do {
     let text_lower = lower text;
     let st = ([], 0);
     let st = (if list_ex (\<lambda>pattern. re_search pattern text_lower) RED_FLAG_PATTERNS
               then report ''Contains random or placeholder text'' 3 st else st);
     let unique_chars = len (remdups (filter (\<lambda>c. c \<noteq> CHR '' '') text_lower));
     let total_chars = len (filter (\<lambda>c. c \<noteq> CHR '' '') text_lower);
     let st = (if total_chars > 20 \<and> unique_chars < 8
               then report ''Very low character diversity - appears random'' 3 st else st);
     let punct_count = len (filter punctuation text);
     excessive \<leftarrow> (if len text > 10
                   then do { ratio \<leftarrow> truediv punct_count (len text); Some (ratio > 3 / 10) }
                   else Some False);
     let st = (if excessive then report ''Excessive punctuation'' 2 st else st);
     digit_ratio \<leftarrow> truediv (len (filter isdigit text)) (max (len text) 1);
     let st = (if digit_ratio > 3 / 10 \<and> \<not> py_in ''%'' text \<and> \<not> py_in ''$'' text
               then report ''Excessive numbers without context'' 2 st else st);
     let words = split text_lower;
     st \<leftarrow> (if words \<noteq> [] then do {
              let word_counts = foldl count_word [] words;
              max_repetition \<leftarrow> (if word_counts \<noteq> [] then py_max (map snd word_counts)
                                else Some 0);
              Some (if max_repetition > 5 \<and> len words < 50
                    then report ''Excessive word repetition'' 2 st else st) }
            else Some st);
     st \<leftarrow> (if words \<noteq> [] then do {
              avg_word_len \<leftarrow> truediv (sum_list (map len words)) (len words);
              Some (if avg_word_len > 12 \<or> avg_word_len < 2
                    then report ''Unusual word patterns'' 2 st else st) }
            else Some st);
     Some \<lparr>is_gibberish = snd st \<ge> 2, severity = snd st, issues = fst st\<rparr>
   }"

section \<open>Relevance checker\<close>

text \<open>The verdict's list of issues is the field \<open>rel_issues\<close> (key \<^verbatim>\<open>"issues"\<close>).
  In the checker the pair \<open>st\<close> holds the two variables \<^verbatim>\<open>issues\<close> and
  \<^verbatim>\<open>relevance_score\<close>, which the source updates together.\<close>

record relevance_verdict =
  relevance_score :: int
  question_type :: "string option"
  rel_issues :: "string list"
  is_relevant :: bool

definition story_indicators :: "string list" where
  "story_indicators =
    [''when'', ''once'', ''time'', ''example'', ''project'', ''company'', ''role'', ''job'']"

definition generic_starts :: "string list" where
  "generic_starts =
    [''i am a hard worker'', ''i always try'', ''i believe in'', ''i am passionate'',
     ''communication is important'', ''teamwork is essential'', ''i am dedicated'']"

definition check_answer_relevance :: "string \<Rightarrow> string \<Rightarrow> relevance_verdict option" where
  "check_answer_relevance question answer = do {
     let question_lower = lower question;
     let answer_lower = lower answer;
     let st = ([], 5);
     let question_type =
       map_option fst
         (find (\<lambda>(q_type, keywords). any_present keywords question_lower)
            QUESTION_RELEVANCE_MAP);
     st \<leftarrow> (case question_type of
              None \<Rightarrow> Some st
            | Some q_type \<Rightarrow>
                if q_type = [] then Some st
                else do {
                  relevant_keywords \<leftarrow> map_of QUESTION_RELEVANCE_MAP q_type;
                  let matches = count_present relevant_keywords answer_lower;
                  Some (if matches = 0
                        then (fst st @ [''Answer doesn't address the '' @ [CHR 0x27] @ q_type
                                         @ [CHR 0x27] @ '' aspect of the question''],
                              snd st - 3)
                        else if matches \<ge> 2 then (fst st, snd st + 2)
                        else st) });
     let st = (if any_present OFF_TOPIC_PHRASES answer_lower
               then (fst st @ [''Contains off-topic indicators''], snd st - 2) else st);
     let has_story = any_present story_indicators answer_lower;
     let st = (if \<not> has_story \<and> len (split answer) > 20
               then (fst st @ [''Doesn't provide a specific example or story''], snd st - 2)
               else st);
     let st = (if list_ex (\<lambda>phrase. prefix phrase answer_lower
                                    \<or> py_in (''. '' @ phrase) answer_lower) generic_starts
               then (fst st @ [''Uses generic statements instead of specific examples''],
                     snd st - 2)
               else st);
     Some \<lparr>relevance_score = max 0 (min 10 (snd st)), question_type = question_type,
           rel_issues = fst st, is_relevant = snd st \<ge> 4\<rparr>
   }"

section \<open>Red-flag detector\<close>

definition blame_patterns :: "string list" where
  "blame_patterns =
    [''it was their fault'', ''they made me'', ''not my fault'', ''blame'',
     ''they didn't'', ''my manager was bad'', ''my team was incompetent'',
     ''no one helped me'', ''they were useless'']"

definition negative_patterns :: "string list" where
  "negative_patterns =
    [''i hate'', ''i hated'', ''stupid'', ''dumb'', ''worst'', ''terrible company'',
     ''bad manager'', ''toxic'', ''the company was awful'']"

text \<open>The result indicators are \<^verbatim>\<open>STAR_INDICATORS["result"]\<close>; a missing key would raise.\<close>

definition detect_red_flags :: "string \<Rightarrow> string list option" where
  "detect_red_flags answer = do {
     let answer_lower = lower answer;
     let red_flags = [];
     let red_flags = (if any_present blame_patterns answer_lower
       then red_flags @ [''Blames others instead of taking accountability - major red flag in big tech interviews'']
       else red_flags);
     let red_flags = (if any_present negative_patterns answer_lower
       then red_flags @ [''Displays negative attitude about previous employers - interviewers note this'']
       else red_flags);
     let we_count = py_count answer_lower '' we '';
     let i_count = py_count answer_lower '' i '';
     let red_flags = (if we_count > 5 \<and> i_count < 2
       then red_flags @ [''Uses 'we' excessively without clarifying your individual contribution'']
       else red_flags);
     result_indicators \<leftarrow> map_of STAR_INDICATORS ''result'';
     let has_result_keywords = any_present result_indicators answer_lower;
     let has_numbers = list_ex re_digit answer;
     let word_count = len (split answer);
     let red_flags = (if word_count > 50 \<and> \<not> has_result_keywords
       then red_flags @ [''Long answer with no clear outcome or result mentioned'']
       else red_flags);
     let red_flags = (if has_result_keywords \<and> \<not> has_numbers \<and> word_count > 30
       then red_flags @ [''Claims results but provides no quantifiable metrics (%, $, time saved, etc.)'']
       else red_flags);
     let red_flags = (if word_count < 30
       then red_flags @ [''Response is too brief for a behavioral question - shows lack of depth or preparation'']
       else red_flags);
     let hedge_count = count_present HEDGING_WORDS answer_lower;
     let red_flags = (if hedge_count \<ge> 3
       then red_flags @ [''Excessive hedging language undermines confidence'']
       else red_flags);
     let vague_count = count_present VAGUE_PHRASES answer_lower;
     let red_flags = (if vague_count \<ge> 2
       then red_flags @ [''Uses vague phrases without concrete details - interviewers want specifics'']
       else red_flags);
     Some red_flags
   }"

section \<open>STAR component detector and keyword counts\<close>

text \<open>\<^verbatim>\<open>components[component] = found\<close> for every entry of the indicator table, in order.\<close>

definition detect_star_components :: "string \<Rightarrow> (string \<times> bool) list" where
  "detect_star_components answer_lower =
     foldl (\<lambda>components (component, indicators).
              AList.update component (any_present indicators answer_lower) components)
       [] STAR_INDICATORS"

definition count_confidence_keywords :: "string \<Rightarrow> int" where
  "count_confidence_keywords answer_lower = count_present CONFIDENCE_KEYWORDS answer_lower"

definition count_leadership_keywords :: "string \<Rightarrow> int" where
  "count_leadership_keywords answer_lower = count_present LEADERSHIP_KEYWORDS answer_lower"

section \<open>The three scorers\<close>

definition evaluate_clarity :: "string \<Rightarrow> int option" where
  "evaluate_clarity answer =
    (let word_count = len (split answer) in
     if word_count < 5 then Some 1
     else if word_count < 10 then Some 2
     else if word_count < 20 then Some 3
     else
       let score = 3;
           sentences = re_split_terminal answer;
           sentences = map strip (filter (\<lambda>s. strip s \<noteq> []) sentences)
       in if sentences = [] then Some 1
          else if len sentences < 2 then Some 2
          else do {
            avg_words_per_sentence \<leftarrow>
              truediv (sum_list (map (\<lambda>s. len (split s)) sentences)) (len sentences);
            let score =
              (if 10 \<le> avg_words_per_sentence \<and> avg_words_per_sentence \<le> 25 then score + 4
               else if 8 \<le> avg_words_per_sentence \<and> avg_words_per_sentence \<le> 30 then score + 2
               else if avg_words_per_sentence > 40 then score - 1
               else if avg_words_per_sentence < 5 then score - 1
               else score);
            let long_sentences = len (filter (\<lambda>s. len (split s) > 40) sentences);
            let score = (if long_sentences = 0 \<and> len sentences \<ge> 3 then score + 2 else score);
            score \<leftarrow> (if len sentences \<ge> 4 then do {
                        let lengths = map (\<lambda>s. len (split s)) sentences;
                        longest \<leftarrow> py_max lengths;
                        shortest \<leftarrow> py_min lengths;
                        let variation = longest - shortest;
                        Some (if variation > 5 then score + 1 else score) }
                      else Some score);
            Some (max 1 (min 10 score)) })"

definition first_person_patterns :: "string list" where
  "first_person_patterns =
    [''i led'', ''i managed'', ''i decided'', ''i took'', ''my decision'', ''i initiated'']"

text \<open>The list of hedging terms that \<^verbatim>\<open>evaluate_confidence\<close> declares for itself.\<close>

definition hedging_words :: "string list" where
  "hedging_words =
    [''maybe'', ''perhaps'', ''i think'', ''i guess'', ''sort of'', ''kind of'', ''probably'']"

definition evaluate_confidence :: "string \<Rightarrow> int" where
  "evaluate_confidence answer_lower =
    (let word_count = len (split answer_lower) in
     if word_count < 10 then 2
     else if word_count < 20 then 3
     else
       let score = 2;
           confidence_count = count_confidence_keywords answer_lower;
           leadership_count = count_leadership_keywords answer_lower;
           total_keywords = confidence_count + leadership_count;
           score = (if total_keywords \<ge> 8 then score + 5
                    else if total_keywords \<ge> 5 then score + 4
                    else if total_keywords \<ge> 3 then score + 3
                    else if total_keywords \<ge> 2 then score + 2
                    else if total_keywords \<ge> 1 then score + 1
                    else score);
           ownership_count = count_present first_person_patterns answer_lower;
           score = (if ownership_count \<ge> 3 then score + 2
                    else if ownership_count \<ge> 1 then score + 1
                    else score);
           hedge_count = count_present hedging_words answer_lower;
           score = (if hedge_count \<ge> 3 then score - 3
                    else if hedge_count \<ge> 1 then score - 1
                    else score)
       in max 1 (min 10 score))"

text \<open>\<^verbatim>\<open>sum(components_found.values())\<close> counts the true entries;
  \<^verbatim>\<open>components_found.get(key)\<close> is false for a missing key.\<close>

definition evaluate_star_structure :: "string \<Rightarrow> int" where
  "evaluate_star_structure answer_lower =
    (let word_count = len (split answer_lower) in
     if word_count < 10 then 1
     else if word_count < 20 then 2
     else
       let components_found = detect_star_components answer_lower;
           components_count = len (filter snd components_found);
           score = (if components_count = 4 then 10
                    else if components_count = 3 then 7
                    else if components_count = 2 then 4
                    else if components_count = 1 then 2
                    else 1);
           score = (if map_of components_found ''situation'' = Some True
                       \<and> map_of components_found ''result'' = Some True
                    then min 10 (score + 1) else score)
       in score)"

section \<open>Feedback generator\<close>

text \<open>
  The feedback is the list of its lines joined by line feeds. The pictographs that open the
  section headers and the bullet sign of the source lie outside the modelled characters; they
  are written as the bracketed names and the asterisk below. No property of this file reads
  the text of the feedback.
\<close>

definition bullet :: string where
  "bullet = ''* ''"

definition generate_rejection_feedback :: "string list \<Rightarrow> string" where
  "generate_rejection_feedback found_issues =
     ''This response cannot be evaluated. '' @ join '' '' found_issues @ '' ''
     @ ''In a real interview at companies like Google, Amazon, or Microsoft, ''
     @ ''this type of response would immediately disqualify you. ''
     @ ''Please provide a genuine, thoughtful answer that describes a specific situation from your experience.''"

definition red_flag_section :: "string list \<Rightarrow> string list" where
  "red_flag_section red_flags =
     (if red_flags \<noteq> []
      then [''[siren] CRITICAL ISSUES DETECTED:''] @ map (\<lambda>flag. bullet @ flag) (take 3 red_flags)
           @ [[]]
      else [])"

definition relevance_section :: "relevance_verdict option \<Rightarrow> string list" where
  "relevance_section relevance_result =
     (case relevance_result of
        None \<Rightarrow> []
      | Some r \<Rightarrow>
          if rel_issues r \<noteq> []
          then [''[warning] RELEVANCE CONCERNS:'']
               @ map (\<lambda>issue. bullet @ issue) (take 2 (rel_issues r)) @ [[]]
          else [])"

definition structure_section :: "int \<Rightarrow> string \<Rightarrow> string list" where
  "structure_section structure answer_lower =
    (let components = detect_star_components answer_lower;
         missing_components = map (\<lambda>(k, v). upper k) (filter (\<lambda>(k, v). \<not> v) components);
         present_components = map (\<lambda>(k, v). upper k) (filter (\<lambda>(k, v). v) components)
     in [''[clipboard] STRUCTURE ANALYSIS:'']
        @ (if structure \<ge> 8
           then [bullet @ ''Strong STAR method execution. All components clearly present.'']
           else if structure \<ge> 5
           then [bullet @ ''Partial STAR structure detected. Found: ''
                   @ (if present_components \<noteq> [] then join '', '' present_components
                      else ''None'') @ ''.'']
                @ (if missing_components \<noteq> []
                   then [bullet @ ''Missing: '' @ join '', '' missing_components
                           @ ''. At Google/Amazon, incomplete STAR = incomplete answer.'']
                   else [])
           else if structure \<ge> 3
           then [bullet @ ''Weak structure. Your answer rambles without clear organization.'',
                 bullet @ ''Missing STAR components: '' @ join '', '' missing_components @ ''.'',
                 bullet @ ''Big tech interviewers are trained to detect missing structure - this would hurt your scorecard.'']
           else [bullet @ ''No discernible STAR structure. This is a fundamental requirement for behavioral interviews.'',
                 bullet @ ''At companies like Meta, Microsoft, or Amazon, this answer would receive a 'Not Inclined' rating.''])
        @ [[]])"

definition confidence_section :: "int \<Rightarrow> string \<Rightarrow> string list" where
  "confidence_section confidence answer_lower =
    (let we_count = py_count answer_lower '' we '';
         i_count = py_count answer_lower '' i ''
     in [''[muscle] OWNERSHIP & CONFIDENCE:'']
        @ (if confidence \<ge> 8
           then [bullet @ ''Good use of first-person ownership. You clearly articulated your individual contributions.'']
           else if confidence \<ge> 5
           then (if we_count > i_count
                 then [bullet @ ''Too much 'we' and not enough 'I'. Interviewers want to know what YOU did, not your team.'',
                       bullet @ ''Hiring managers will ask: 'But what was YOUR specific contribution?'' @ [CHR 0x27]]
                 else [bullet @ ''Moderate confidence shown. Add more action verbs (led, drove, delivered, achieved).''])
           else if confidence \<ge> 3
           then [bullet @ ''Weak ownership demonstrated. You sound unsure of your own contributions.'',
                 bullet @ ''Hedging words like 'maybe', 'I think', 'sort of' undermine your credibility.'']
           else [bullet @ ''Poor confidence projection. In a real interview, this would raise doubts about your capabilities.'',
                 bullet @ ''Senior interviewers specifically look for candidates who can clearly articulate their impact.''])
        @ [[]])"

definition clarity_section :: "int \<Rightarrow> string list" where
  "clarity_section clarity =
     [''[target] CLARITY & COMMUNICATION:'']
     @ (if clarity \<ge> 8
        then [bullet @ ''Clear, well-structured sentences. Easy to follow your narrative.'']
        else if clarity \<ge> 5
        then [bullet @ ''Acceptable clarity but could be sharper. Aim for concise, punchy sentences.'',
              bullet @ ''Remember: interviewers are evaluating 5-8 candidates. Make your points memorable.'']
        else if clarity \<ge> 3
        then [bullet @ ''Unclear communication. Sentences are either too long or too choppy.'',
              bullet @ ''Practice the 'headline + details' approach: state your point, then elaborate.'']
        else [bullet @ ''Very poor clarity. Hard to understand your main points.'',
              bullet @ ''This would be flagged as a communication concern in interviewer feedback.''])
     @ [[]]"

definition metrics_section :: "rat \<Rightarrow> string \<Rightarrow> string list" where
  "metrics_section avg_score answer_lower =
    (let has_metrics = list_ex re_digit answer_lower
     in if \<not> has_metrics \<and> avg_score < 8
        then [''[chart] MISSING METRICS:'',
              bullet @ ''No quantifiable results mentioned. Big tech LOVES numbers.'',
              bullet @ ''Add metrics like: '20% improvement', 'reduced from 2 weeks to 3 days', '$50K saved'.'',
              []]
        else [])"

definition verdict_section :: "rat \<Rightarrow> string list" where
  "verdict_section avg_score =
     [''[memo] OVERALL ASSESSMENT:'']
     @ (if avg_score \<ge> 8
        then [bullet @ ''STRONG RESPONSE - Would likely receive a 'Strong Hire' signal for behavioral fit.'',
              bullet @ ''This demonstrates the depth and structure expected at top tech companies.'']
        else if avg_score \<ge> 6
        then [bullet @ ''ACCEPTABLE RESPONSE - 'Inclined' but not exceptional.'',
              bullet @ ''In a competitive loop, this might not be enough. Aim higher.'']
        else if avg_score \<ge> 4
        then [bullet @ ''WEAK RESPONSE - Would likely receive a 'Not Inclined' rating.'',
              bullet @ ''At companies like Amazon (Bar Raiser interviews), this would be concerning.'',
              bullet @ ''You need significant improvement in structure and specificity.'']
        else if avg_score \<ge> 2
        then [bullet @ ''POOR RESPONSE - Would result in 'Strong No Hire' feedback.'',
              bullet @ ''This answer shows lack of preparation for behavioral interviews.'',
              bullet @ ''Recommend: Study STAR method, prepare 6-8 stories with specific metrics.'']
        else [bullet @ ''UNACCEPTABLE RESPONSE - Interview would likely be stopped early.'',
              bullet @ ''This type of answer suggests either unprepared candidate or poor fit.'',
              bullet @ ''Action required: Complete preparation overhaul before real interviews.''])"

text \<open>\<^verbatim>\<open>generate_hr_feedback\<close> appends its sections in this order; each section above is one
  commented block of the source function.\<close>

definition generate_hr_feedback ::
  "int \<Rightarrow> int \<Rightarrow> int \<Rightarrow> string \<Rightarrow> string list \<Rightarrow> relevance_verdict option \<Rightarrow> string" where
  "generate_hr_feedback clarity confidence structure answer_lower red_flags relevance_result =
    (let avg_score = of_int (clarity + confidence + structure) / 3;
         feedback_parts =
           red_flag_section red_flags
           @ relevance_section relevance_result
           @ structure_section structure answer_lower
           @ confidence_section confidence answer_lower
           @ clarity_section clarity
           @ metrics_section avg_score answer_lower
           @ verdict_section avg_score
     in join [CHR 0x0A] feedback_parts)"

section \<open>Orchestrator\<close>

text \<open>A key that one of the two return statements leaves out is \<open>None\<close> in the record.
  The key \<^verbatim>\<open>"structure"\<close> is the field \<open>structure'\<close> (the plain word is reserved).\<close>

record result_details =
  star_components_found :: "(string \<times> bool) list"
  confidence_keywords_found :: int
  leadership_keywords_found :: int
  red_flags :: "string list"
  relevance_issues :: "string list option"

record analysis_result =
  clarity :: int
  confidence :: int
  structure' :: int
  feedback :: string
  total_score :: int
  is_valid :: bool
  rejection_reason :: "string option"
  details :: result_details

text \<open>\<^verbatim>\<open>min(len(red_flags) * 1.5, 5)\<close>; the products and their halves are exact as floats.\<close>

definition red_flag_penalty :: "string list \<Rightarrow> rat" where
  "red_flag_penalty found_flags = min (of_int (len found_flags) * (3 / 2)) 5"

definition relevance_penalty :: "relevance_verdict option \<Rightarrow> int" where
  "relevance_penalty relevance_result =
     (case relevance_result of
        None \<Rightarrow> 0
      | Some r \<Rightarrow> if \<not> is_relevant r then 3 else 0)"

text \<open>The result returned when the gibberish gate closes.\<close>

definition rejection :: "gibberish_verdict \<Rightarrow> analysis_result" where
  "rejection gibberish_check =
     \<lparr>clarity = 1, confidence = 1, structure' = 1,
      feedback = generate_rejection_feedback (issues gibberish_check),
      total_score = 1, is_valid = False,
      rejection_reason = Some ''Invalid response detected'',
      details = \<lparr>star_components_found = [], confidence_keywords_found = 0,
                 leadership_keywords_found = 0, red_flags = issues gibberish_check,
                 relevance_issues = None\<rparr>\<rparr>"

text \<open>The question is optional and defaults to the empty text, which switches the
  relevance check off. The local list \<^verbatim>\<open>red_flags\<close> is called \<open>found_flags\<close> here,
  since \<open>red_flags\<close> names the field of the result.\<close>

definition analyze_hr_response :: "string \<Rightarrow> string \<Rightarrow> analysis_result option" where
  "analyze_hr_response answer question = do {
     let answer_lower = lower answer;
     gibberish_check \<leftarrow> detect_gibberish answer;
     if is_gibberish gibberish_check then Some (rejection gibberish_check)
     else do {
       relevance_result \<leftarrow> (if question \<noteq> []
                             then map_option Some (check_answer_relevance question answer)
                             else Some None);
       found_flags \<leftarrow> detect_red_flags answer;
       clarity_score \<leftarrow> evaluate_clarity answer;
       let confidence_score = evaluate_confidence answer_lower;
       let structure_score = evaluate_star_structure answer_lower;
       let clarity_score = max 1 (clarity_score - py_int (red_flag_penalty found_flags / 2));
       let confidence_score =
             max 1 (confidence_score - py_int (red_flag_penalty found_flags / 2));
       let structure_score = max 1 (structure_score - relevance_penalty relevance_result);
       let total_score =
             py_int (of_int (clarity_score + confidence_score + structure_score) / 3);
       let feedback = generate_hr_feedback clarity_score confidence_score structure_score
                        answer_lower found_flags relevance_result;
       Some \<lparr>clarity = clarity_score, confidence = confidence_score,
             structure' = structure_score, feedback = feedback,
             total_score = total_score, is_valid = True, rejection_reason = None,
             details = \<lparr>star_components_found = detect_star_components answer_lower,
                        confidence_keywords_found = count_confidence_keywords answer_lower,
                        leadership_keywords_found = count_leadership_keywords answer_lower,
                        red_flags = found_flags,
                        relevance_issues =
                          Some (case relevance_result of None \<Rightarrow> []
                                | Some r \<Rightarrow> rel_issues r)\<rparr>\<rparr> } }"

section \<open>No operation of the pipeline raises\<close>

lemma len_nonneg: "0 \<le> len xs"
  by (simp add: len_def)

lemma bind_total:
  "\<exists>x. m = Some x \<Longrightarrow> (\<And>x. \<exists>y. f x = Some y) \<Longrightarrow> \<exists>y. m \<bind> f = Some y"
  by auto

lemma if_total:
  "(c \<Longrightarrow> \<exists>x. a = Some x) \<Longrightarrow> (\<not> c \<Longrightarrow> \<exists>x. b = Some x)
   \<Longrightarrow> \<exists>x. (if c then a else b) = Some x"
  by simp

lemma option_case_total:
  "(x = None \<Longrightarrow> \<exists>y. a = Some y) \<Longrightarrow> (\<And>v. x = Some v \<Longrightarrow> \<exists>y. b v = Some y)
   \<Longrightarrow> \<exists>y. (case x of None \<Rightarrow> a | Some v \<Rightarrow> b v) = Some y"
  by (cases x) simp_all

lemma Some_total: "\<exists>x. Some v = Some x"
  by blast

lemma truediv_total: "b \<noteq> 0 \<Longrightarrow> \<exists>x. truediv a b = Some x"
  by (simp add: truediv_def)

lemma py_max_total: "xs \<noteq> [] \<Longrightarrow> \<exists>x. py_max xs = Some x"
  by (cases xs) simp_all

lemma py_min_total: "xs \<noteq> [] \<Longrightarrow> \<exists>x. py_min xs = Some x"
  by (cases xs) simp_all

lemmas total_intros =
  bind_total if_total option_case_total Some_total truediv_total py_max_total py_min_total

text \<open>The three divisions of the detector: the punctuation ratio is only taken for more
  than ten characters, the digit ratio is divided by at least one, and the average word
  length and the maximum of the word counts are only taken when there are words.\<close>

lemma detect_gibberish_total: "\<exists>g. detect_gibberish text = Some g"
  unfolding detect_gibberish_def Let_def
  by (intro total_intros) (auto simp: max_def len_def)

text \<open>The mean sentence length is only computed for two sentences or more, the longest
  and the shortest sentence only for four or more.\<close>

lemma evaluate_clarity_total: "\<exists>c. evaluate_clarity answer = Some c"
  unfolding evaluate_clarity_def Let_def
  by (intro total_intros) (auto simp: len_def)

lemma find_map_of:
  "find (\<lambda>(k, v). P v) kvs = Some (k, v) \<Longrightarrow> \<exists>v'. map_of kvs k = Some v'"
  by (induction kvs) (auto split: if_splits)

text \<open>The question type is a key of the table it was found in.\<close>

lemma check_answer_relevance_total: "\<exists>r. check_answer_relevance question answer = Some r"
  unfolding check_answer_relevance_def Let_def
  by (intro total_intros)
     (auto dest!: find_map_of[where P="\<lambda>keywords. any_present keywords (lower question)"])

lemma detect_red_flags_total: "\<exists>fs. detect_red_flags answer = Some fs"
  unfolding detect_red_flags_def Let_def
  by (intro total_intros) (simp add: STAR_INDICATORS_def)

lemma analyze_total: "\<exists>r. analyze_hr_response answer question = Some r"
  unfolding analyze_hr_response_def Let_def
  using detect_gibberish_total check_answer_relevance_total detect_red_flags_total
    evaluate_clarity_total
  by (intro total_intros) auto

text \<open>
  Claim C9. For every answer and every question, the empty text and arbitrary text included,
  the orchestrator returns a result and raises nothing; the gibberish detector and the
  clarity scorer, which hold the divisions by the text length, the word count and the
  sentence count, return a value on every text as well.
\<close>

theorem analyze_never_raises:
  "(\<exists>r. analyze_hr_response answer question = Some r)
   \<and> (\<exists>g. detect_gibberish answer = Some g)
   \<and> (\<exists>c. evaluate_clarity answer = Some c)"
  using analyze_total detect_gibberish_total evaluate_clarity_total by blast

theorem analyze_never_raises_witness:
  "(\<exists>r. analyze_hr_response [] ''What?'' = Some r)
   \<and> (\<exists>g. detect_gibberish [] = Some g)
   \<and> (\<exists>c. evaluate_clarity [] = Some c)"
  using analyze_never_raises [of "[]" "''What?''"] by simp

section \<open>The gibberish gate\<close>

lemma detect_gibberish_verdict:
  "detect_gibberish text = Some g \<Longrightarrow> is_gibberish g = (2 \<le> severity g)"
  unfolding detect_gibberish_def Let_def
  by (auto simp: bind_eq_Some_conv)

lemma analyze_gate:
  "detect_gibberish answer = Some g \<Longrightarrow> is_gibberish g
   \<Longrightarrow> analyze_hr_response answer question = Some (rejection g)"
  by (simp add: analyze_hr_response_def)

text \<open>What the orchestrator returns when the gate stays open, field by field.\<close>

lemma analyze_pass:
  assumes "detect_gibberish answer = Some g" and "\<not> is_gibberish g"
    and "analyze_hr_response answer question = Some r"
  shows "\<exists>rel found_flags c.
           (if question \<noteq> [] then map_option Some (check_answer_relevance question answer)
            else Some None) = Some rel
         \<and> detect_red_flags answer = Some found_flags
         \<and> evaluate_clarity answer = Some c
         \<and> is_valid r \<and> rejection_reason r = None
         \<and> clarity r = max 1 (c - py_int (red_flag_penalty found_flags / 2))
         \<and> confidence r = max 1 (evaluate_confidence (lower answer)
                                   - py_int (red_flag_penalty found_flags / 2))
         \<and> structure' r = max 1 (evaluate_star_structure (lower answer) - relevance_penalty rel)
         \<and> total_score r = py_int (of_int (clarity r + confidence r + structure' r) / 3)
         \<and> star_components_found (details r) = detect_star_components (lower answer)
         \<and> red_flags (details r) = found_flags"
  using assms unfolding analyze_hr_response_def Let_def
  by (auto simp: bind_eq_Some_conv)

lemma rejection_fields:
  "\<not> is_valid (rejection g)"
  "rejection_reason (rejection g) = Some ''Invalid response detected''"
  "clarity (rejection g) = 1" "confidence (rejection g) = 1" "structure' (rejection g) = 1"
  "total_score (rejection g) = 1" "star_components_found (details (rejection g)) = []"
  "confidence_keywords_found (details (rejection g)) = 0"
  "leadership_keywords_found (details (rejection g)) = 0"
  "red_flags (details (rejection g)) = issues g"
  "relevance_issues (details (rejection g)) = None"
  by (simp_all add: rejection_def)

lemma gibberish_asdf:
  "detect_gibberish ''asdf''
   = Some \<lparr>is_gibberish = True, severity = 3,
            issues = [''Contains random or placeholder text'']\<rparr>"
  by code_simp

lemma gibberish_digits:
  "detect_gibberish ''123456789''
   = Some \<lparr>is_gibberish = True, severity = 2,
            issues = [''Excessive numbers without context'']\<rparr>"
  by code_simp

lemma gibberish_empty:
  "detect_gibberish [] = Some \<lparr>is_gibberish = False, severity = 0, issues = []\<rparr>"
  by code_simp

text \<open>
  Claim C1. Whenever the gibberish detector reports a severity of 2 or more for the answer,
  the orchestrator returns, for every question, the rejection record built from the
  verdict alone: not valid, the rejection reason set, clarity, confidence, structure and
  total score all 1. The record holds no output of a scorer, of the relevance checker or of
  the red-flag detector: its component mapping is empty, its keyword counts are 0, it has
  no relevance issues, and its list of red flags is the detector's own list of issues.
\<close>

theorem gibberish_gate:
  assumes "detect_gibberish answer = Some g" and "2 \<le> severity g"
  shows "analyze_hr_response answer question = Some (rejection g)
       \<and> \<not> is_valid (rejection g)
       \<and> rejection_reason (rejection g) = Some ''Invalid response detected''
       \<and> clarity (rejection g) = 1 \<and> confidence (rejection g) = 1
       \<and> structure' (rejection g) = 1 \<and> total_score (rejection g) = 1
       \<and> star_components_found (details (rejection g)) = []
       \<and> confidence_keywords_found (details (rejection g)) = 0
       \<and> leadership_keywords_found (details (rejection g)) = 0
       \<and> relevance_issues (details (rejection g)) = None
       \<and> red_flags (details (rejection g)) = issues g"
  using assms detect_gibberish_verdict [of answer g] analyze_gate [of answer g question]
  by (simp add: rejection_fields)

theorem gibberish_gate_witness:
  "detect_gibberish ''asdf''
     = Some \<lparr>is_gibberish = True, severity = 3,
              issues = [''Contains random or placeholder text'']\<rparr>
   \<and> 2 \<le> severity \<lparr>is_gibberish = True, severity = 3,
                      issues = [''Contains random or placeholder text'']\<rparr>
   \<and> analyze_hr_response ''asdf'' ''Why?''
     = Some (rejection \<lparr>is_gibberish = True, severity = 3,
                         issues = [''Contains random or placeholder text'']\<rparr>)"
  using gibberish_gate [of "''asdf''"
      "\<lparr>is_gibberish = True, severity = 3, issues = [''Contains random or placeholder text'']\<rparr>"
      "''Why?''"] gibberish_asdf
  by simp

text \<open>
  Claim C3, amended. The result is not valid exactly when the verdict's severity is 2 or
  more (moderate or severe), not only when it is 3; and whenever the result is not valid
  it is the rejection record, with clarity, confidence, structure and total score 1.
\<close>

theorem invalid_iff_gibberish:
  assumes "detect_gibberish answer = Some g"
    and "analyze_hr_response answer question = Some r"
  shows "(\<not> is_valid r \<longleftrightarrow> 2 \<le> severity g)
       \<and> (\<not> is_valid r \<longrightarrow> r = rejection g \<and> clarity r = 1 \<and> confidence r = 1
                                \<and> structure' r = 1 \<and> total_score r = 1)"
proof (cases "is_gibberish g")
  case True
  with assms analyze_gate [of answer g question] have "r = rejection g" by simp
  with True assms(1) detect_gibberish_verdict [of answer g] show ?thesis
    by (simp add: rejection_fields)
next
  case False
  with assms analyze_pass [of answer g question r] have "is_valid r" by blast
  with False assms(1) detect_gibberish_verdict [of answer g] show ?thesis by simp
qed

theorem invalid_iff_gibberish_witness:
  "detect_gibberish ''123456789''
     = Some \<lparr>is_gibberish = True, severity = 2,
              issues = [''Excessive numbers without context'']\<rparr>
   \<and> analyze_hr_response ''123456789'' []
     = Some (rejection \<lparr>is_gibberish = True, severity = 2,
                         issues = [''Excessive numbers without context'']\<rparr>)
   \<and> \<not> is_valid (rejection \<lparr>is_gibberish = True, severity = 2,
                               issues = [''Excessive numbers without context'']\<rparr>)"
proof -
  let ?g = "\<lparr>is_gibberish = True, severity = 2,
             issues = [''Excessive numbers without context'']\<rparr>"
  have r: "analyze_hr_response ''123456789'' [] = Some (rejection ?g)"
    using analyze_gate [OF gibberish_digits, of "[]"] by simp
  from invalid_iff_gibberish [OF gibberish_digits r] gibberish_digits r
  show ?thesis by simp
qed

text \<open>The answer \<open>123456789\<close> has severity 2, not 3, and its result is not valid.\<close>

theorem invalid_only_severe_counterexample:
  "map_option severity (detect_gibberish ''123456789'') = Some 2
   \<and> map_option is_valid (analyze_hr_response ''123456789'' []) = Some False"
  by code_simp

section \<open>The component mapping\<close>

lemma star_keys:
  "map fst (detect_star_components answer_lower)
   = [''situation'', ''task'', ''action'', ''result'']"
  by (simp add: detect_star_components_def STAR_INDICATORS_def)

lemma valid_empty: "map_option is_valid (analyze_hr_response [] []) = Some True"
  by code_simp

text \<open>
  Claim C2, amended. The STAR component detector returns, for every text, a mapping with
  exactly the four keys situation, task, action and result, each with a truth value. The
  field \<open>star_components_found\<close> of a valid result has exactly these four keys; in the
  result of the gibberish rejection it is the empty mapping.
\<close>

theorem star_components_keys:
  "map fst (detect_star_components answer_lower)
     = [''situation'', ''task'', ''action'', ''result'']
   \<and> (\<forall>r. analyze_hr_response answer question = Some r \<longrightarrow>
        (if is_valid r
         then map fst (star_components_found (details r))
              = [''situation'', ''task'', ''action'', ''result'']
         else star_components_found (details r) = []))"
proof -
  obtain g where g: "detect_gibberish answer = Some g"
    using detect_gibberish_total by blast
  have "(if is_valid r
         then map fst (star_components_found (details r))
              = [''situation'', ''task'', ''action'', ''result'']
         else star_components_found (details r) = [])"
    if r: "analyze_hr_response answer question = Some r" for r
  proof (cases "is_gibberish g")
    case True
    with g r analyze_gate [of answer g question] have "r = rejection g" by simp
    then show ?thesis by (simp add: rejection_fields)
  next
    case False
    from analyze_pass [OF g False r] show ?thesis by (auto simp: star_keys)
  qed
  then show ?thesis using star_keys by blast
qed

theorem star_components_keys_witness:
  "map fst (detect_star_components [])
     = [''situation'', ''task'', ''action'', ''result'']
   \<and> (\<exists>r. analyze_hr_response [] [] = Some r \<and> is_valid r
          \<and> map fst (star_components_found (details r))
              = [''situation'', ''task'', ''action'', ''result''])"
proof -
  obtain r where r: "analyze_hr_response [] [] = Some r"
    using analyze_total by blast
  with valid_empty have "is_valid r" by simp
  with star_components_keys [of "[]" "[]" "[]"] r show ?thesis by simp
qed

text \<open>The rejected answer \<open>asdf\<close> comes back with an empty component mapping.\<close>

theorem star_components_keys_counterexample:
  "map_option star_components_found (map_option details (analyze_hr_response ''asdf'' []))
   = Some []"
  by code_simp

section \<open>Score ranges\<close>

lemma clamp_range: "1 \<le> max 1 (min 10 x) \<and> max 1 (min 10 x) \<le> (10::int)"
  by simp

lemma if_between:
  "(c \<Longrightarrow> lo \<le> a \<and> a \<le> hi) \<Longrightarrow> (\<not> c \<Longrightarrow> lo \<le> b \<and> b \<le> hi)
   \<Longrightarrow> lo \<le> (if c then a else b) \<and> (if c then a else b) \<le> (hi::int)"
  by simp

lemma bind_range:
  "(\<And>x. \<forall>c. f x = Some c \<longrightarrow> lo \<le> c \<and> c \<le> hi)
   \<Longrightarrow> \<forall>c. m \<bind> f = Some c \<longrightarrow> lo \<le> c \<and> c \<le> (hi::int)"
  by (auto simp: bind_eq_Some_conv)

lemma if_range:
  "(c \<Longrightarrow> \<forall>x. a = Some x \<longrightarrow> lo \<le> x \<and> x \<le> hi)
   \<Longrightarrow> (\<not> c \<Longrightarrow> \<forall>x. b = Some x \<longrightarrow> lo \<le> x \<and> x \<le> hi)
   \<Longrightarrow> \<forall>x. (if c then a else b) = Some x \<longrightarrow> lo \<le> x \<and> x \<le> (hi::int)"
  by simp

lemma Some_range:
  "lo \<le> v \<and> v \<le> hi \<Longrightarrow> \<forall>x. Some v = Some x \<longrightarrow> lo \<le> x \<and> x \<le> (hi::int)"
  by simp

lemma evaluate_clarity_range_all:
  "\<forall>c. evaluate_clarity answer = Some c \<longrightarrow> 1 \<le> c \<and> c \<le> 10"
  unfolding evaluate_clarity_def Let_def
  by (intro bind_range if_range Some_range clamp_range) simp_all

lemma evaluate_clarity_range:
  "evaluate_clarity answer = Some c \<Longrightarrow> 1 \<le> c \<and> c \<le> 10"
  using evaluate_clarity_range_all by blast

lemma evaluate_confidence_range:
  "1 \<le> evaluate_confidence answer_lower \<and> evaluate_confidence answer_lower \<le> 10"
  unfolding evaluate_confidence_def Let_def
  by (intro if_between clamp_range) simp_all

lemma evaluate_star_structure_range:
  "1 \<le> evaluate_star_structure answer_lower \<and> evaluate_star_structure answer_lower \<le> 10"
  unfolding evaluate_star_structure_def Let_def
  by (intro if_between) simp_all

lemma red_flag_penalty_nonneg: "0 \<le> red_flag_penalty found_flags"
  by (simp add: red_flag_penalty_def len_def)

lemma py_int_nonneg: "0 \<le> x \<Longrightarrow> 0 \<le> py_int x"
  by (simp add: py_int_def)

lemma relevance_penalty_cases: "relevance_penalty rel = 0 \<or> relevance_penalty rel = 3"
  by (simp add: relevance_penalty_def split: option.splits)

lemma py_int_mean: "0 \<le> n \<Longrightarrow> py_int (of_int n / 3) = n div 3"
  using floor_divide_of_int_eq [of n 3, where ?'a = rat] by (simp add: py_int_def)

text \<open>
  Claim C6. For every answer and question the orchestrator returns a result whose clarity,
  confidence and structure lie between 1 and 10, whose total score is the mean of the three
  truncated toward zero (the integer quotient of their sum by 3), and whose total score
  therefore lies between 1 and 10 as well.
\<close>

theorem scores_bounded:
  "\<exists>r. analyze_hr_response answer question = Some r
     \<and> 1 \<le> clarity r \<and> clarity r \<le> 10
     \<and> 1 \<le> confidence r \<and> confidence r \<le> 10
     \<and> 1 \<le> structure' r \<and> structure' r \<le> 10
     \<and> total_score r = py_int (of_int (clarity r + confidence r + structure' r) / 3)
     \<and> total_score r = (clarity r + confidence r + structure' r) div 3
     \<and> 1 \<le> total_score r \<and> total_score r \<le> 10"
proof -
  obtain g where g: "detect_gibberish answer = Some g"
    using detect_gibberish_total by blast
  obtain r where r: "analyze_hr_response answer question = Some r"
    using analyze_total by blast
  have "1 \<le> clarity r \<and> clarity r \<le> 10 \<and> 1 \<le> confidence r \<and> confidence r \<le> 10
      \<and> 1 \<le> structure' r \<and> structure' r \<le> 10
      \<and> total_score r = py_int (of_int (clarity r + confidence r + structure' r) / 3)"
  proof (cases "is_gibberish g")
    case True
    with g r analyze_gate [of answer g question] have "r = rejection g" by simp
    then show ?thesis by (simp add: rejection_fields py_int_def)
  next
    case False
    from analyze_pass [OF g False r] obtain rel found_flags c where
      c: "evaluate_clarity answer = Some c"
      and cl: "clarity r = max 1 (c - py_int (red_flag_penalty found_flags / 2))"
      and co: "confidence r = max 1 (evaluate_confidence (lower answer)
                                   - py_int (red_flag_penalty found_flags / 2))"
      and st: "structure' r
               = max 1 (evaluate_star_structure (lower answer) - relevance_penalty rel)"
      and to: "total_score r = py_int (of_int (clarity r + confidence r + structure' r) / 3)"
      by blast
    have p: "0 \<le> py_int (red_flag_penalty found_flags / 2)"
      by (rule py_int_nonneg) (simp add: red_flag_penalty_nonneg)
    from evaluate_clarity_range [OF c] p cl have "1 \<le> clarity r \<and> clarity r \<le> 10" by simp
    moreover from evaluate_confidence_range [of "lower answer"] p co
    have "1 \<le> confidence r \<and> confidence r \<le> 10" by simp
    moreover from evaluate_star_structure_range [of "lower answer"]
      relevance_penalty_cases [of rel] st
    have "1 \<le> structure' r \<and> structure' r \<le> 10" by auto
    ultimately show ?thesis using to by simp
  qed
  moreover from this have "py_int (of_int (clarity r + confidence r + structure' r) / 3)
       = (clarity r + confidence r + structure' r) div 3"
    by (intro py_int_mean) simp
  ultimately show ?thesis using r by auto
qed

theorem scores_bounded_witness:
  "\<exists>r. analyze_hr_response ''asdf'' ''Why?'' = Some r
     \<and> 1 \<le> clarity r \<and> clarity r \<le> 10
     \<and> 1 \<le> confidence r \<and> confidence r \<le> 10
     \<and> 1 \<le> structure' r \<and> structure' r \<le> 10
     \<and> total_score r = py_int (of_int (clarity r + confidence r + structure' r) / 3)
     \<and> total_score r = (clarity r + confidence r + structure' r) div 3
     \<and> 1 \<le> total_score r \<and> total_score r \<le> 10"
  using scores_bounded [of "''asdf''" "''Why?''"] by simp

section \<open>Penalties\<close>

lemma half_penalty_nat:
  "py_int (min (of_nat n * (3 / 2)) 5 / 2) = (if n \<le> 1 then 0 else if n = 2 then 1 else 2)"
proof -
  consider "n = 0" | "n = 1" | "n = 2" | "n = 3" | "4 \<le> n" by linarith
  then show ?thesis
  proof cases
    case 5
    then have "(4::rat) \<le> of_nat n" by (metis of_nat_le_iff of_nat_numeral)
    then have "min (of_nat n * (3 / 2)) (5::rat) = 5" by (simp add: min_def)
    with 5 show ?thesis by (simp add: py_int_def floor_eq_iff)
  qed (simp_all add: py_int_def floor_eq_iff min_def)
qed

text \<open>Half the red-flag penalty, truncated: 0 for at most one flag, 1 for two flags,
  2 for three flags or more.\<close>

lemma half_penalty:
  "py_int (red_flag_penalty found_flags / 2)
   = (if len found_flags \<le> 1 then 0 else if len found_flags = 2 then 1 else 2)"
  using half_penalty_nat [of "length found_flags"]
  by (simp add: red_flag_penalty_def len_def)

lemma flags_empty:
  "detect_red_flags []
   = Some [''Response is too brief for a behavioral question - shows lack of depth or preparation'']"
  by code_simp

lemma clarity_empty: "evaluate_clarity [] = Some 1"
  by code_simp

lemma confidence_empty: "evaluate_confidence [] = 2"
  by code_simp

lemma structure_empty: "evaluate_star_structure [] = 1"
  by code_simp

lemma verdict_empty_passes:
  "\<not> is_gibberish \<lparr>is_gibberish = False, severity = 0, issues = []\<rparr>"
  by simp

text \<open>
  Claim C4, amended. For every answer that passes the gibberish gate, the red-flag penalty
  is the fraction min(1.5 x number of red flags, 5); clarity and confidence are each
  lowered by half of that penalty truncated toward zero to an integer (0, 1 or 2) and kept
  at 1 or more; the relevance penalty is the integer 3 when a question was given and the
  answer is not relevant and 0 otherwise, and it is subtracted from the structure score,
  which is kept at 1 or more, not from clarity or confidence.
\<close>

theorem penalty_application:
  assumes "detect_gibberish answer = Some g" and "\<not> is_gibberish g"
  shows "\<exists>r rel found_flags c.
           analyze_hr_response answer question = Some r
         \<and> detect_red_flags answer = Some found_flags
         \<and> evaluate_clarity answer = Some c
         \<and> rel = (if question \<noteq> [] then check_answer_relevance question answer else None)
         \<and> red_flag_penalty found_flags = min (of_int (len found_flags) * (3 / 2)) 5
         \<and> py_int (red_flag_penalty found_flags / 2)
           = (if len found_flags \<le> 1 then 0 else if len found_flags = 2 then 1 else 2)
         \<and> relevance_penalty rel
           = (case rel of None \<Rightarrow> 0 | Some v \<Rightarrow> if is_relevant v then 0 else 3)
         \<and> clarity r = max 1 (c - py_int (red_flag_penalty found_flags / 2))
         \<and> confidence r = max 1 (evaluate_confidence (lower answer)
                                   - py_int (red_flag_penalty found_flags / 2))
         \<and> structure' r = max 1 (evaluate_star_structure (lower answer) - relevance_penalty rel)"
proof -
  obtain r where r: "analyze_hr_response answer question = Some r"
    using analyze_total by blast
  from analyze_pass [OF assms r] obtain rel found_flags c where
    rel: "(if question \<noteq> [] then map_option Some (check_answer_relevance question answer)
           else Some None) = Some rel"
    and f: "detect_red_flags answer = Some found_flags"
    and c: "evaluate_clarity answer = Some c"
    and cl: "clarity r = max 1 (c - py_int (red_flag_penalty found_flags / 2))"
    and co: "confidence r = max 1 (evaluate_confidence (lower answer)
                                   - py_int (red_flag_penalty found_flags / 2))"
    and st: "structure' r
             = max 1 (evaluate_star_structure (lower answer) - relevance_penalty rel)"
    by blast
  from rel have rel':
    "rel = (if question \<noteq> [] then check_answer_relevance question answer else None)"
    by (auto split: if_splits)
  have rp: "relevance_penalty rel
           = (case rel of None \<Rightarrow> 0 | Some v \<Rightarrow> if is_relevant v then 0 else 3)"
    by (simp add: relevance_penalty_def split: option.splits)
  from r f c rel' cl co st rp half_penalty [of found_flags] show ?thesis
    by (simp add: red_flag_penalty_def)
qed

theorem penalty_application_witness:
  "detect_gibberish [] = Some \<lparr>is_gibberish = False, severity = 0, issues = []\<rparr>
   \<and> \<not> is_gibberish \<lparr>is_gibberish = False, severity = 0, issues = []\<rparr>
   \<and> (\<exists>r rel found_flags c.
           analyze_hr_response [] ''challenge'' = Some r
         \<and> detect_red_flags [] = Some found_flags
         \<and> evaluate_clarity [] = Some c
         \<and> rel = (if ''challenge'' \<noteq> [] then check_answer_relevance ''challenge'' []
                  else None)
         \<and> red_flag_penalty found_flags = min (of_int (len found_flags) * (3 / 2)) 5
         \<and> py_int (red_flag_penalty found_flags / 2)
           = (if len found_flags \<le> 1 then 0 else if len found_flags = 2 then 1 else 2)
         \<and> relevance_penalty rel
           = (case rel of None \<Rightarrow> 0 | Some v \<Rightarrow> if is_relevant v then 0 else 3)
         \<and> clarity r = max 1 (c - py_int (red_flag_penalty found_flags / 2))
         \<and> confidence r = max 1 (evaluate_confidence (lower [])
                                   - py_int (red_flag_penalty found_flags / 2))
         \<and> structure' r = max 1 (evaluate_star_structure (lower []) - relevance_penalty rel))"
  by (intro conjI)
     (rule gibberish_empty, rule verdict_empty_passes,
      rule penalty_application [OF gibberish_empty verdict_empty_passes])

text \<open>The empty answer to a question about a challenge: the red-flag penalty truncates
  to 1 and the relevance penalty is 3, and the confidence score is still the scorer's 2.\<close>

theorem penalty_application_counterexample:
  "map_option confidence (analyze_hr_response [] ''challenge'') = Some 2
   \<and> evaluate_confidence (lower []) = 2
   \<and> map_option red_flag_penalty (detect_red_flags []) = Some (3 / 2)
   \<and> py_int (3 / 2) = 1
   \<and> map_option is_relevant (check_answer_relevance ''challenge'' []) = Some False
   \<and> relevance_penalty (check_answer_relevance ''challenge'' []) = 3"
  by code_simp

section \<open>The empty answer\<close>

text \<open>
  Claim C10. For the empty answer, with any question or none, the gibberish gate stays
  open and the result is valid with clarity 1, confidence 2, structure 1 and total score 1;
  its list of red flags holds exactly the flag for a too brief response, and the truncated
  half penalty is 0, so that clarity and confidence are the scorers' own values.
\<close>

theorem empty_answer:
  "\<exists>r. analyze_hr_response [] question = Some r
     \<and> detect_gibberish [] = Some \<lparr>is_gibberish = False, severity = 0, issues = []\<rparr>
     \<and> is_valid r \<and> clarity r = 1 \<and> confidence r = 2 \<and> structure' r = 1
     \<and> total_score r = 1
     \<and> red_flags (details r)
       = [''Response is too brief for a behavioral question - shows lack of depth or preparation'']
     \<and> py_int (red_flag_penalty (red_flags (details r)) / 2) = 0
     \<and> evaluate_clarity [] = Some 1 \<and> evaluate_confidence (lower []) = 2
     \<and> evaluate_star_structure (lower []) = 1"
proof -
  let ?brief = "''Response is too brief for a behavioral question - shows lack of depth or preparation''"
  obtain r where r: "analyze_hr_response [] question = Some r"
    using analyze_total by blast
  from analyze_pass [OF gibberish_empty verdict_empty_passes r] obtain rel found_flags c where
    f: "detect_red_flags [] = Some found_flags"
    and c: "evaluate_clarity [] = Some c"
    and v: "is_valid r"
    and cl: "clarity r = max 1 (c - py_int (red_flag_penalty found_flags / 2))"
    and co: "confidence r = max 1 (evaluate_confidence (lower [])
                                   - py_int (red_flag_penalty found_flags / 2))"
    and st: "structure' r = max 1 (evaluate_star_structure (lower []) - relevance_penalty rel)"
    and to: "total_score r = py_int (of_int (clarity r + confidence r + structure' r) / 3)"
    and fl: "red_flags (details r) = found_flags"
    by blast
  from f have ff: "found_flags = [?brief]" by (simp only: flags_empty option.inject)
  from c have c1: "c = 1" by (simp only: clarity_empty option.inject)
  have h: "py_int (red_flag_penalty found_flags / 2) = 0"
    unfolding ff by (simp only: half_penalty) (simp add: len_def)
  have l: "lower [] = []" by (simp add: lower_def)
  from cl h c1 have cl1: "clarity r = 1" by simp
  from co h l have co2: "confidence r = 2" by (simp add: confidence_empty)
  from st l relevance_penalty_cases [of rel] have st1: "structure' r = 1"
    by (auto simp: structure_empty)
  from to cl1 co2 st1 py_int_mean [of 4] have to1: "total_score r = 1" by simp
  from fl ff have fl1: "red_flags (details r) = [?brief]" by simp
  from h fl have h1: "py_int (red_flag_penalty (red_flags (details r)) / 2) = 0" by simp
  have e: "evaluate_confidence (lower []) = 2" "evaluate_star_structure (lower []) = 1"
    by (simp_all only: l confidence_empty structure_empty)
  from r gibberish_empty v cl1 co2 st1 to1 fl1 h1 clarity_empty e show ?thesis
    by blast
qed

theorem empty_answer_witness:
  "\<exists>r. analyze_hr_response [] ''challenge'' = Some r
     \<and> detect_gibberish [] = Some \<lparr>is_gibberish = False, severity = 0, issues = []\<rparr>
     \<and> is_valid r \<and> clarity r = 1 \<and> confidence r = 2 \<and> structure' r = 1
     \<and> total_score r = 1
     \<and> red_flags (details r)
       = [''Response is too brief for a behavioral question - shows lack of depth or preparation'']
     \<and> py_int (red_flag_penalty (red_flags (details r)) / 2) = 0
     \<and> evaluate_clarity [] = Some 1 \<and> evaluate_confidence (lower []) = 2
     \<and> evaluate_star_structure (lower []) = 1"
  by (rule empty_answer)

section \<open>Hedging terms\<close>

lemma count_present_append:
  "count_present (xs @ ys) text = count_present xs text + count_present ys text"
  by (simp add: count_present_def len_def)

lemma count_present_nonneg: "0 \<le> count_present xs text"
  by (simp add: count_present_def len_def)

text \<open>The scorer's own list is the first seven entries of the shared lexicon.\<close>

lemma hedging_prefix:
  "HEDGING_WORDS = hedging_words @ [''might have'', ''could have'', ''possibly'', ''somewhat'',
     ''i believe'', ''i feel like'', ''in a way'', ''more or less'']"
  by (simp add: HEDGING_WORDS_def hedging_words_def)

lemma keyword_chain:
  "(if c1 then s + 5 else if c2 then s + 4 else if c3 then s + 3 else if c4 then s + 2
    else if c5 then s + 1 else s)
   = s + (if c1 then 5 else if c2 then 4 else if c3 then 3 else if c4 then 2
          else if c5 then 1 else (0::int))"
  by simp

lemma ownership_chain:
  "(if c1 then s + 2 else if c2 then s + 1 else s)
   = s + (if c1 then 2 else if c2 then 1 else (0::int))"
  by simp

lemma hedge_chain:
  "(if c1 then s - 3 else if c2 then s - 1 else s)
   = s - (if c1 then 3 else if c2 then 1 else (0::int))"
  by simp

lemma confidence_long:
  assumes "20 \<le> len (split answer_lower)"
  shows "evaluate_confidence answer_lower =
      (let k = count_confidence_keywords answer_lower + count_leadership_keywords answer_lower;
           ownership = count_present first_person_patterns answer_lower;
           hedges = count_present hedging_words answer_lower
       in max 1 (min 10 (2
            + (if 8 \<le> k then 5 else if 5 \<le> k then 4 else if 3 \<le> k then 3
               else if 2 \<le> k then 2 else if 1 \<le> k then 1 else 0)
            + (if 3 \<le> ownership then 2 else if 1 \<le> ownership then 1 else 0)
            - (if 3 \<le> hedges then 3 else if 1 \<le> hedges then 1 else 0))))"
proof -
  from assms have a: "\<not> len (split answer_lower) < 10" "\<not> len (split answer_lower) < 20"
    by simp_all
  show ?thesis
    unfolding evaluate_confidence_def Let_def
    apply (simp only: a if_False)
    apply (simp only: keyword_chain)
    apply (simp only: ownership_chain)
    apply (simp only: hedge_chain)
    done
qed

lemma confidence_words:
  "20 \<le> len (split (lower ''Possibly I believe it was somewhat fine because the plan went along for all the people there and then it ended okay''))"
  by code_simp

text \<open>
  Claim C5, amended. The confidence scorer counts the hedging terms of its own list of
  seven, which is the beginning of the shared lexicon of fifteen that the red-flag detector
  counts; so for every answer its count is at most the detector's count, and it can be
  smaller. For an answer of twenty words or more the scorer takes 3 off when its own count
  is 3 or more and 1 off when it is 1 or 2.
\<close>

theorem hedging_counts:
  "count_present hedging_words (lower answer) \<le> count_present HEDGING_WORDS (lower answer)
   \<and> (20 \<le> len (split (lower answer)) \<longrightarrow>
        evaluate_confidence (lower answer) =
          (let k = count_confidence_keywords (lower answer)
                   + count_leadership_keywords (lower answer);
               ownership = count_present first_person_patterns (lower answer);
               hedges = count_present hedging_words (lower answer)
           in max 1 (min 10 (2
                + (if 8 \<le> k then 5 else if 5 \<le> k then 4 else if 3 \<le> k then 3
                   else if 2 \<le> k then 2 else if 1 \<le> k then 1 else 0)
                + (if 3 \<le> ownership then 2 else if 1 \<le> ownership then 1 else 0)
                - (if 3 \<le> hedges then 3 else if 1 \<le> hedges then 1 else 0)))))"
proof (intro conjI impI)
  show "count_present hedging_words (lower answer)
        \<le> count_present HEDGING_WORDS (lower answer)"
    using count_present_nonneg by (simp only: hedging_prefix count_present_append) simp
qed (rule confidence_long)

theorem hedging_counts_witness:
  "count_present hedging_words
     (lower ''Possibly I believe it was somewhat fine because the plan went along for all the people there and then it ended okay'')
   \<le> count_present HEDGING_WORDS
     (lower ''Possibly I believe it was somewhat fine because the plan went along for all the people there and then it ended okay'')
   \<and> 20 \<le> len (split (lower ''Possibly I believe it was somewhat fine because the plan went along for all the people there and then it ended okay''))
   \<and> evaluate_confidence (lower ''Possibly I believe it was somewhat fine because the plan went along for all the people there and then it ended okay'') =
          (let k = count_confidence_keywords (lower ''Possibly I believe it was somewhat fine because the plan went along for all the people there and then it ended okay'')
                   + count_leadership_keywords (lower ''Possibly I believe it was somewhat fine because the plan went along for all the people there and then it ended okay'');
               ownership = count_present first_person_patterns (lower ''Possibly I believe it was somewhat fine because the plan went along for all the people there and then it ended okay'');
               hedges = count_present hedging_words (lower ''Possibly I believe it was somewhat fine because the plan went along for all the people there and then it ended okay'')
           in max 1 (min 10 (2
                + (if 8 \<le> k then 5 else if 5 \<le> k then 4 else if 3 \<le> k then 3
                   else if 2 \<le> k then 2 else if 1 \<le> k then 1 else 0)
                + (if 3 \<le> ownership then 2 else if 1 \<le> ownership then 1 else 0)
                - (if 3 \<le> hedges then 3 else if 1 \<le> hedges then 1 else 0))))"
  by (intro conjI)
     (rule conjunct1 [OF hedging_counts], rule confidence_words,
      rule mp [OF conjunct2 [OF hedging_counts] confidence_words])

text \<open>Three hedging terms of the shared lexicon, none of the scorer's seven: the
  detector counts 3, the scorer counts 0 and leaves the base score 2 as it is.\<close>

theorem hedging_counts_counterexample:
  "count_present hedging_words
     (lower ''Possibly I believe it was somewhat fine because the plan went along for all the people there and then it ended okay'') = 0
   \<and> count_present HEDGING_WORDS
     (lower ''Possibly I believe it was somewhat fine because the plan went along for all the people there and then it ended okay'') = 3
   \<and> evaluate_confidence
     (lower ''Possibly I believe it was somewhat fine because the plan went along for all the people there and then it ended okay'') = 2"
  by code_simp

section \<open>Sentence-length bands of the clarity scorer\<close>

lemma band_chain:
  "(if 10 \<le> avg \<and> avg \<le> 25 then s + 4
    else if 8 \<le> avg \<and> avg \<le> 30 then s + 2
    else if avg > 40 then s - 1
    else if avg < 5 then s - 1
    else s)
   = s + ((if 10 \<le> avg \<and> avg \<le> 25 then 4 else 0)
          + (if (8 \<le> avg \<and> avg \<le> 30) \<and> \<not> (10 \<le> avg \<and> avg \<le> 25) then 2 else 0)
          + (if 40 < avg then - 1 else 0)
          + (if avg < 5 then - 1 else (0::int)))"
  for avg :: rat
  by auto

lemma run_on_step:
  "(if c then s + 2 else s) = s + (if c then 2 else (0::int))"
  by simp

lemma py_max_Max: "xs \<noteq> [] \<Longrightarrow> py_max xs = Some (Max (set xs))"
  using Max.set_eq_fold [of "hd xs" "tl xs"] by (cases xs) simp_all

lemma py_min_Min: "xs \<noteq> [] \<Longrightarrow> py_min xs = Some (Min (set xs))"
  using Min.set_eq_fold [of "hd xs" "tl xs"] by (cases xs) simp_all

lemma variation_step:
  "lengths \<noteq> [] \<Longrightarrow>
   (if c then py_max lengths \<bind> (\<lambda>longest. py_min lengths \<bind> (\<lambda>shortest.
               Some (if 5 < longest - shortest then s + 1 else s)))
    else Some s) \<bind> f
   = f (s + (if c \<and> 5 < Max (set lengths) - Min (set lengths) then 1 else (0::int)))"
  by (simp add: py_max_Max py_min_Min)

lemma clarity_words:
  "20 \<le> len (split ''I led the team at my job when we had a hard problem to fix. We did it in two days and the client was happy.'')"
  by code_simp

lemma clarity_sentences:
  "2 \<le> len (map strip (filter (\<lambda>s. strip s \<noteq> [])
      (re_split_terminal ''I led the team at my job when we had a hard problem to fix. We did it in two days and the client was happy.'')))"
  by code_simp

lemma clarity_value:
  "evaluate_clarity ''I led the team at my job when we had a hard problem to fix. We did it in two days and the client was happy.'' = Some 7"
  by code_simp

text \<open>
  Claim C7. For every answer of at least 20 words with at least 2 non-empty sentences, the
  clarity score is the base 3 plus one bonus for the mean sentence length, plus the bonus
  for no overlong sentence, plus the bonus for variation, kept between 1 and 10. The bonus
  for the mean is written here as a sum of four terms with disjoint conditions, so that at
  most one of them applies: +4 for a mean in [10,25]; +2 for a mean in [8,30] that is not
  in [10,25]; -1 for a mean above 40; -1 for a mean below 5.
\<close>

theorem clarity_band_first_match:
  assumes "20 \<le> len (split answer)"
    and "2 \<le> len (map strip (filter (\<lambda>s. strip s \<noteq> []) (re_split_terminal answer)))"
  shows "evaluate_clarity answer =
    (let sentences = map strip (filter (\<lambda>s. strip s \<noteq> []) (re_split_terminal answer));
         lengths = map (\<lambda>s. len (split s)) sentences;
         avg = (of_int (sum_list lengths) / of_int (len sentences) :: rat)
     in Some (max 1 (min 10 (3
          + ((if 10 \<le> avg \<and> avg \<le> 25 then 4 else 0)
             + (if (8 \<le> avg \<and> avg \<le> 30) \<and> \<not> (10 \<le> avg \<and> avg \<le> 25) then 2 else 0)
             + (if 40 < avg then - 1 else 0)
             + (if avg < 5 then - 1 else 0))
          + (if len (filter (\<lambda>s. 40 < len (split s)) sentences) = 0 \<and> 3 \<le> len sentences
             then 2 else 0)
          + (if 4 \<le> len sentences \<and> 5 < Max (set lengths) - Min (set lengths)
             then 1 else 0)))))"
proof -
  let ?S = "map strip (filter (\<lambda>s. strip s \<noteq> []) (re_split_terminal answer))"
  from assms(1) have w: "\<not> len (split answer) < 5" "\<not> len (split answer) < 10"
    "\<not> len (split answer) < 20" by simp_all
  from assms(2) have s: "(?S = []) = False" "\<not> len ?S < 2" "len ?S \<noteq> 0"
    by (auto simp: len_def)
  then have l: "map (\<lambda>s. len (split s)) ?S \<noteq> []" by simp
  have d: "truediv a (len ?S) = Some (of_int a / of_int (len ?S))" for a
    using s(3) by (simp add: truediv_def)
  show ?thesis
    unfolding evaluate_clarity_def Let_def
    apply (simp only: w s if_False d bind.bind_lunit)
    apply (simp only: band_chain)
    apply (simp only: run_on_step)
    apply (simp only: variation_step [OF l])
    done
qed

theorem clarity_band_first_match_witness:
  "20 \<le> len (split ''I led the team at my job when we had a hard problem to fix. We did it in two days and the client was happy.'')
   \<and> 2 \<le> len (map strip (filter (\<lambda>s. strip s \<noteq> [])
      (re_split_terminal ''I led the team at my job when we had a hard problem to fix. We did it in two days and the client was happy.'')))
   \<and> evaluate_clarity ''I led the team at my job when we had a hard problem to fix. We did it in two days and the client was happy.'' = Some 7
   \<and> Some (7::int) =
    (let sentences = map strip (filter (\<lambda>s. strip s \<noteq> []) (re_split_terminal ''I led the team at my job when we had a hard problem to fix. We did it in two days and the client was happy.''));
         lengths = map (\<lambda>s. len (split s)) sentences;
         avg = (of_int (sum_list lengths) / of_int (len sentences) :: rat)
     in Some (max 1 (min 10 (3
          + ((if 10 \<le> avg \<and> avg \<le> 25 then 4 else 0)
             + (if (8 \<le> avg \<and> avg \<le> 30) \<and> \<not> (10 \<le> avg \<and> avg \<le> 25) then 2 else 0)
             + (if 40 < avg then - 1 else 0)
             + (if avg < 5 then - 1 else 0))
          + (if len (filter (\<lambda>s. 40 < len (split s)) sentences) = 0 \<and> 3 \<le> len sentences
             then 2 else 0)
          + (if 4 \<le> len sentences \<and> 5 < Max (set lengths) - Min (set lengths)
             then 1 else 0)))))"
  by (intro conjI)
     (rule clarity_words, rule clarity_sentences, rule clarity_value,
      rule trans [OF clarity_value [symmetric]
                     clarity_band_first_match [OF clarity_words clarity_sentences]])

section \<open>Relevance verdict\<close>

lemma bindE:
  assumes "m \<bind> f = Some y"
  obtains x where "m = Some x" and "f x = Some y"
  using assms by (auto simp: bind_eq_Some_conv)

lemma step_keeps:
  "(fst st = [] \<longrightarrow> snd st = 5 \<or> snd st = (7::int))
   \<Longrightarrow> (fst (if c then (fst st @ [x], n) else st) = []
        \<longrightarrow> snd (if c then (fst st @ [x], n) else st) = 5
            \<or> snd (if c then (fst st @ [x], n) else st) = 7)"
  by simp

lemma clamp0_lo: "0 \<le> max 0 (min 10 (x::int))"
  by simp

lemma clamp0_hi: "max 0 (min 10 x) \<le> (10::int)"
  by simp

lemma relevant_clamp: "(4 \<le> x) = (4 \<le> max 0 (min 10 (x::int)))"
  by auto

lemma clamp_keeps:
  "(A \<longrightarrow> s = 5 \<or> s = (7::int))
   \<Longrightarrow> (A \<longrightarrow> max 0 (min 10 s) = 5 \<or> max 0 (min 10 s) = 7)"
  by auto

text \<open>Every later step either leaves the pair of issues and score alone or appends an
  issue; only the step for the question type can raise the score, from 5 to 7.\<close>

lemma relevance_shape_all:
  "\<forall>r. check_answer_relevance question answer = Some r \<longrightarrow>
     0 \<le> relevance_score r \<and> relevance_score r \<le> 10
     \<and> is_relevant r = (4 \<le> relevance_score r)
     \<and> (rel_issues r = [] \<longrightarrow> relevance_score r = 5 \<or> relevance_score r = 7)"
  unfolding check_answer_relevance_def Let_def
  apply (intro allI impI)
  apply (erule bindE)
  apply (simp only: option.inject)
  apply hypsubst
  apply (simp only: relevance_verdict.select_convs)
  apply (intro conjI clamp0_lo clamp0_hi relevant_clamp clamp_keeps step_keeps)
  apply (auto split: option.splits if_splits simp: bind_eq_Some_conv)
  done

lemma relevance_none:
  "check_answer_relevance [] []
   = Some \<lparr>relevance_score = 5, question_type = None, rel_issues = [], is_relevant = True\<rparr>"
  by code_simp

text \<open>
  Claim C8. For every question and answer the relevance checker returns a verdict whose
  score lies between 0 and 10 and whose flag \<open>is_relevant\<close> holds exactly when that
  returned score is 4 or more. The score starts from 5: a verdict without any issue has
  the score 5, or 7 when the bonus for two matching keywords was given.
\<close>

theorem relevance_verdict_score:
  "\<exists>r. check_answer_relevance question answer = Some r
     \<and> 0 \<le> relevance_score r \<and> relevance_score r \<le> 10
     \<and> (is_relevant r \<longleftrightarrow> 4 \<le> relevance_score r)
     \<and> (rel_issues r = [] \<longrightarrow> relevance_score r = 5 \<or> relevance_score r = 7)"
proof -
  obtain r where r: "check_answer_relevance question answer = Some r"
    using check_answer_relevance_total by blast
  with relevance_shape_all [of question answer] show ?thesis by blast
qed

theorem relevance_verdict_score_witness:
  "check_answer_relevance [] []
     = Some \<lparr>relevance_score = 5, question_type = None, rel_issues = [], is_relevant = True\<rparr>
   \<and> (\<exists>r. check_answer_relevance [] [] = Some r
     \<and> 0 \<le> relevance_score r \<and> relevance_score r \<le> 10
     \<and> (is_relevant r \<longleftrightarrow> 4 \<le> relevance_score r)
     \<and> (rel_issues r = [] \<longrightarrow> relevance_score r = 5 \<or> relevance_score r = 7))"
  by (intro conjI) (rule relevance_none, rule relevance_verdict_score)

end
